theory Spec2Isabelle
  imports Main "HOL-Library.Sublist" "HOL-Library.Word"
begin

section \<open>Python values used by both wrappers\<close>

text \<open>
  \<^verbatim>\<open>terminal_pty.py\<close> works on \<^verbatim>\<open>bytes\<close> (stdin is reopened in binary mode),
  \<^verbatim>\<open>terminal_win.py\<close> on \<^verbatim>\<open>str\<close> (text-mode stdin). A byte is a \<^typ>\<open>char\<close>
  (8 bits), a character of a \<^verbatim>\<open>str\<close> is its code point.
\<close>

type_synonym bytes = "char list"
type_synonym ustr = "nat list"

definition ustr :: "string \<Rightarrow> ustr" where
  "ustr s = map of_char s"

text \<open>The exceptions that the modelled code can meet, and the two handler classes it names.\<close>

datatype exn =
  ValueError | UnicodeDecodeError | OSError | StructError | AttributeError | WinptyError
| EOFError | SystemExit

datatype 'a outcome = Returned 'a | Raised exn

definition is_ValueError :: "exn \<Rightarrow> bool" where
  "is_ValueError e = (e = ValueError \<or> e = UnicodeDecodeError)"

definition is_OSError :: "exn \<Rightarrow> bool" where
  "is_OSError e = (e = OSError)"

text \<open>Slices \<^verbatim>\<open>xs[i:j]\<close> for \<open>0 \<le> i\<close>, \<open>0 \<le> j\<close>: Python clamps both ends to the length.\<close>

definition slice :: "'a list \<Rightarrow> nat \<Rightarrow> nat \<Rightarrow> 'a list" where
  "slice xs i j = take (j - i) (drop i xs)"

text \<open>\<^verbatim>\<open>data.find(x, i)\<close> for a single element \<open>x\<close>: the first index \<open>\<ge> i\<close>, \<open>None\<close> for \<open>-1\<close>.\<close>

fun index_of :: "'a \<Rightarrow> 'a list \<Rightarrow> nat option" where
  "index_of x [] = None"
| "index_of x (y # ys) = (if y = x then Some 0 else map_option Suc (index_of x ys))"

definition find_from :: "'a \<Rightarrow> 'a list \<Rightarrow> nat \<Rightarrow> nat option" where
  "find_from x xs i = map_option (\<lambda>k. i + k) (index_of x (drop i xs))"

text \<open>\<^verbatim>\<open>s.split(sep)\<close> with a one-character separator: always at least one field.\<close>

fun split_on :: "'a \<Rightarrow> 'a list \<Rightarrow> 'a list list" where
  "split_on sep [] = [[]]"
| "split_on sep (x # xs) =
     (if x = sep then [] # split_on sep xs
      else (case split_on sep xs of
              [] \<Rightarrow> [[x]]
            | p # ps \<Rightarrow> (x # p) # ps))"

text \<open>\<^verbatim>\<open>' '.join(parts)\<close>.\<close>

fun join_with :: "'a list \<Rightarrow> 'a list list \<Rightarrow> 'a list" where
  "join_with sep [] = []"
| "join_with sep [p] = p"
| "join_with sep (p # q # ps) = p @ sep @ join_with sep (q # ps)"

subsection \<open>\<^verbatim>\<open>bytes.decode('utf-8')\<close>\<close>

text \<open>
  The strict decoder: well-formed sequences only (no overlong forms, no surrogates, nothing
  above U+10FFFF); anything else raises \<^verbatim>\<open>UnicodeDecodeError\<close>, here \<open>None\<close>.
\<close>

definition cont :: "nat \<Rightarrow> bool" where
  "cont b = (128 \<le> b \<and> b \<le> 191)"

fun utf8 :: "nat list \<Rightarrow> ustr option" where
  "utf8 [] = Some []"
| "utf8 (b0 # bs) =
     (if b0 < 128 then map_option (\<lambda>r. b0 # r) (utf8 bs)
      else if 194 \<le> b0 \<and> b0 \<le> 223 then
        (case bs of
           b1 # r \<Rightarrow>
             (if cont b1 then map_option (\<lambda>t. ((b0 - 192) * 64 + (b1 - 128)) # t) (utf8 r)
              else None)
         | _ \<Rightarrow> None)
      else if 224 \<le> b0 \<and> b0 \<le> 239 then
        (case bs of
           b1 # b2 # r \<Rightarrow>
             (if cont b1 \<and> cont b2 \<and> (b0 = 224 \<longrightarrow> 160 \<le> b1) \<and> (b0 = 237 \<longrightarrow> b1 \<le> 159)
              then map_option
                     (\<lambda>t. ((b0 - 224) * 4096 + (b1 - 128) * 64 + (b2 - 128)) # t) (utf8 r)
              else None)
         | _ \<Rightarrow> None)
      else if 240 \<le> b0 \<and> b0 \<le> 244 then
        (case bs of
           b1 # b2 # b3 # r \<Rightarrow>
             (if cont b1 \<and> cont b2 \<and> cont b3 \<and> (b0 = 240 \<longrightarrow> 144 \<le> b1)
                 \<and> (b0 = 244 \<longrightarrow> b1 \<le> 143)
              then map_option
                     (\<lambda>t. ((b0 - 240) * 262144 + (b1 - 128) * 4096 + (b2 - 128) * 64
                             + (b3 - 128)) # t) (utf8 r)
              else None)
         | _ \<Rightarrow> None)
      else None)"

definition decode_utf8 :: "bytes \<Rightarrow> exn + ustr" where
  "decode_utf8 bs = (case utf8 (map of_char bs) of
                       None \<Rightarrow> Inl UnicodeDecodeError
                     | Some s \<Rightarrow> Inr s)"

subsection \<open>\<^verbatim>\<open>int(s)\<close> on a \<^verbatim>\<open>str\<close>\<close>

text \<open>
  What \<^verbatim>\<open>int\<close> accepts beyond ASCII depends on the interpreter's Unicode tables, and
  the longest accepted digit string on its \<^verbatim>\<open>int_max_str_digits\<close> setting. Both are
  parameters of the model; everything on ASCII input is fixed below.
\<close>

record pyrt =
  uni_space :: "nat \<Rightarrow> bool"
  uni_decimal :: "nat \<Rightarrow> nat option"
  int_max_str_digits :: nat

definition c_isspace :: "nat \<Rightarrow> bool" where
  "c_isspace c = (c = 32 \<or> (9 \<le> c \<and> c \<le> 13))"

text \<open>
  A string that is not pure ASCII is first rewritten: Unicode spaces become a blank and
  Unicode decimal digits their ASCII digit; at the first other character above ASCII the
  string is cut with a \<^verbatim>\<open>?\<close>, which then fails to parse.
\<close>

fun to_ascii :: "pyrt \<Rightarrow> ustr \<Rightarrow> ustr" where
  "to_ascii rt [] = []"
| "to_ascii rt (ch # s) =
     (if ch < 127 then ch # to_ascii rt s
      else if 128 \<le> ch \<and> uni_space rt ch then 32 # to_ascii rt s
      else (case (if ch < 128 then None else uni_decimal rt ch) of
              None \<Rightarrow> [63]
            | Some d \<Rightarrow> (if d < 10 then (48 + d) # to_ascii rt s else [63])))"

text \<open>
  The run of digits, with single underscores between digits only. The flag says that the
  previous character was an underscore.
\<close>

fun scan_digits :: "bool \<Rightarrow> ustr \<Rightarrow> (nat list \<times> ustr) option" where
  "scan_digits pu [] = (if pu then None else Some ([], []))"
| "scan_digits pu (c # s) =
     (if c = 95 then (if pu then None else scan_digits True s)
      else if 48 \<le> c \<and> c \<le> 57 then
        map_option (\<lambda>(ds, r). ((c - 48) # ds, r)) (scan_digits False s)
      else if pu then None else Some ([], c # s))"

definition decimal_value :: "nat list \<Rightarrow> int" where
  "decimal_value ds = foldl (\<lambda>a d. 10 * a + int d) 0 ds"

definition too_many_digits :: "pyrt \<Rightarrow> nat \<Rightarrow> bool" where
  "too_many_digits rt n = (640 < n \<and> 0 < int_max_str_digits rt \<and> int_max_str_digits rt < n)"

definition py_int :: "pyrt \<Rightarrow> ustr \<Rightarrow> exn + int" where
  "py_int rt s =
     (let t = (if list_all (\<lambda>c. c < 128) s then s else to_ascii rt s);
          t1 = dropWhile c_isspace t;
          neg = (case t1 of c # _ \<Rightarrow> c = 45 | [] \<Rightarrow> False);
          t2 = (case t1 of c # r \<Rightarrow> (if c = 43 \<or> c = 45 then r else t1) | [] \<Rightarrow> t1)
      in if (case t2 of c # _ \<Rightarrow> c = 95 | [] \<Rightarrow> False) then Inl ValueError
         else (case scan_digits False t2 of
                 None \<Rightarrow> Inl ValueError
               | Some (ds, r) \<Rightarrow>
                   (if ds = [] \<or> too_many_digits rt (length ds)
                       \<or> dropWhile c_isspace r \<noteq> [] then Inl ValueError
                    else Inr (if neg then - decimal_value ds else decimal_value ds))))"

section \<open>\<^verbatim>\<open>terminal_pty.py\<close>: the Unix wrapper\<close>

subsection \<open>The operating system as the wrapper sees it\<close>

datatype signal = SIGWINCH | SIGTERM

record winsize =
  ws_row :: "16 word"
  ws_col :: "16 word"
  ws_xpixel :: "16 word"
  ws_ypixel :: "16 word"

text \<open>
  Every effect of the wrapper is appended to one log, so that their order can be read off:
  a window size set on a terminal, a signal sent, a line written to standard error.
\<close>

datatype event =
  Winsize_set int winsize
| Signal_sent int signal
| Resize_error exn

text \<open>
  \<open>child_pid\<close> is the module's global (\<^verbatim>\<open>None\<close> until the fork); \<open>ttys\<close> maps the open
  terminal descriptors to their window size; \<open>procs\<close> says which process ids \<^verbatim>\<open>os.kill\<close>
  can reach.
\<close>

record world =
  child_pid :: "int option"
  ttys :: "int \<Rightarrow> winsize option"
  procs :: "int \<Rightarrow> bool"
  events :: "event list"

text \<open>\<^verbatim>\<open>struct.pack('H', v)\<close>: an unsigned short, \<^verbatim>\<open>struct.error\<close> outside its range.\<close>

definition pack_H :: "int \<Rightarrow> exn + 16 word" where
  "pack_H v = (if 0 \<le> v \<and> v \<le> 65535 then Inr (word_of_int v) else Inl StructError)"

definition pack_HHHH :: "int \<Rightarrow> int \<Rightarrow> int \<Rightarrow> int \<Rightarrow> exn + winsize" where
  "pack_HHHH a b c d =
     (case pack_H a of Inl e \<Rightarrow> Inl e | Inr a' \<Rightarrow>
      (case pack_H b of Inl e \<Rightarrow> Inl e | Inr b' \<Rightarrow>
       (case pack_H c of Inl e \<Rightarrow> Inl e | Inr c' \<Rightarrow>
        (case pack_H d of Inl e \<Rightarrow> Inl e | Inr d' \<Rightarrow>
           Inr \<lparr>ws_row = a', ws_col = b', ws_xpixel = c', ws_ypixel = d'\<rparr>))))"

text \<open>
  \<^verbatim>\<open>fcntl.ioctl(fd, termios.TIOCSWINSZ, size)\<close>: \<^verbatim>\<open>ValueError\<close> for a negative
  descriptor, \<^verbatim>\<open>OSError\<close> for one that is not an open terminal.
\<close>

definition ioctl_TIOCSWINSZ :: "int \<Rightarrow> winsize \<Rightarrow> world \<Rightarrow> unit outcome \<times> world" where
  "ioctl_TIOCSWINSZ fd packed w =
     (if fd < 0 then (Raised ValueError, w)
      else (case ttys w fd of
              None \<Rightarrow> (Raised OSError, w)
            | Some _ \<Rightarrow> (Returned (),
                         w\<lparr>ttys := (ttys w)(fd := Some packed),
                           events := events w @ [Winsize_set fd packed]\<rparr>)))"

text \<open>\<^verbatim>\<open>os.kill(pid, sig)\<close>: \<^verbatim>\<open>OSError\<close> when there is no such process to signal.\<close>

definition os_kill :: "int \<Rightarrow> signal \<Rightarrow> world \<Rightarrow> unit outcome \<times> world" where
  "os_kill pid sg w =
     (if procs w pid then (Returned (), w\<lparr>events := events w @ [Signal_sent pid sg]\<rparr>)
      else (Raised OSError, w))"

definition stderr_write :: "exn \<Rightarrow> world \<Rightarrow> world" where
  "stderr_write e w = w\<lparr>events := events w @ [Resize_error e]\<rparr>"

subsection \<open>\<^verbatim>\<open>set_size\<close>\<close>

definition set_size :: "int \<Rightarrow> int \<Rightarrow> int \<Rightarrow> world \<Rightarrow> unit outcome \<times> world" where
  "set_size fd cols rows w =
     (case pack_HHHH rows cols 0 0 of
        Inl e \<Rightarrow> (Raised e, w)
      | Inr packed \<Rightarrow> ioctl_TIOCSWINSZ fd packed w)"

subsection \<open>\<^verbatim>\<open>handle_resize_escape\<close>\<close>

definition ESC :: char where "ESC = CHR 0x1B"
definition BEL :: char where "BEL = CHR 0x07"

text \<open>The literal \<^verbatim>\<open>b'\x1b]RESIZE;'\<close> that the scan compares with.\<close>

definition RESIZE_PREFIX :: bytes where
  "RESIZE_PREFIX = ESC # '']RESIZE;''"

text \<open>
  The body of the \<^verbatim>\<open>try\<close>: decode the parameters, split them into exactly two fields,
  convert both, set the size, then signal the child if \<open>child_pid\<close> is set and not zero.
\<close>

definition parse_params :: "pyrt \<Rightarrow> bytes \<Rightarrow> exn + (int \<times> int)" where
  "parse_params rt raw =
     (case decode_utf8 raw of
        Inl e \<Rightarrow> Inl e
      | Inr params \<Rightarrow>
          (case split_on 59 params of
             [cols, rows] \<Rightarrow>
               (case py_int rt cols of
                  Inl e \<Rightarrow> Inl e
                | Inr c \<Rightarrow> (case py_int rt rows of Inl e \<Rightarrow> Inl e | Inr r \<Rightarrow> Inr (c, r)))
           | _ \<Rightarrow> Inl ValueError))"

definition apply_resize :: "pyrt \<Rightarrow> bytes \<Rightarrow> int \<Rightarrow> world \<Rightarrow> unit outcome \<times> world" where
  "apply_resize rt raw fd w =
     (case parse_params rt raw of
        Inl e \<Rightarrow> (Raised e, w)
      | Inr (cols, rows) \<Rightarrow>
          (case set_size fd cols rows w of
             (Raised e, w') \<Rightarrow> (Raised e, w')
           | (Returned _, w') \<Rightarrow>
               (case child_pid w' of
                  None \<Rightarrow> (Returned (), w')
                | Some pid \<Rightarrow>
                    (if pid \<noteq> 0 then os_kill pid SIGWINCH w' else (Returned (), w')))))"

text \<open>
  The \<^verbatim>\<open>try\<close> with its handler \<^verbatim>\<open>except (ValueError, OSError)\<close>: those are reported on
  standard error and the scan goes on; any other exception leaves the function.
\<close>

definition try_resize :: "pyrt \<Rightarrow> bytes \<Rightarrow> int \<Rightarrow> world \<Rightarrow> unit outcome \<times> world" where
  "try_resize rt raw fd w =
     (case apply_resize rt raw fd w of
        (Raised e, w') \<Rightarrow>
          (if is_ValueError e \<or> is_OSError e then (Returned (), stderr_write e w')
           else (Raised e, w'))
      | (Returned u, w') \<Rightarrow> (Returned u, w'))"

text \<open>
  The \<^verbatim>\<open>while i < len(data)\<close> loop, with \<open>i\<close> and \<open>result\<close> as arguments. Note that the
  test compares the slice \<^verbatim>\<open>data[i:i+8]\<close> with the literal, as the source does.
\<close>

function scan :: "pyrt \<Rightarrow> bytes \<Rightarrow> int \<Rightarrow> nat \<Rightarrow> bytes \<Rightarrow> world \<Rightarrow> bytes outcome \<times> world" where
  "scan rt data fd i result w =
     (if i < length data then
        (if slice data i (i + 8) = RESIZE_PREFIX then
           (case find_from BEL data i of
              Some endpos \<Rightarrow>
                (case try_resize rt (slice data (i + 8) endpos) fd w of
                   (Raised e, w') \<Rightarrow> (Raised e, w')
                 | (Returned _, w') \<Rightarrow> scan rt data fd (endpos + 1) result w')
            | None \<Rightarrow> scan rt data fd (i + 1) (result @ slice data i (i + 1)) w)
         else scan rt data fd (i + 1) (result @ slice data i (i + 1)) w)
      else (Returned result, w))"
  by pat_completeness auto

termination scan
proof -
  have index_bound: "index_of x ys = Some k \<Longrightarrow> k < length ys" for x :: char and ys k
    by (induction ys arbitrary: k) (auto split: if_splits)
  have found: "find_from x xs i = Some e \<Longrightarrow> i \<le> e \<and> e < length xs"
    for x :: char and xs i e
    by (auto simp: find_from_def dest!: index_bound)
  show ?thesis
    by (relation "measure (\<lambda>(rt, data, fd, i, result, w). length data - i)")
       (auto dest!: found)
qed

definition handle_resize_escape :: "pyrt \<Rightarrow> bytes \<Rightarrow> int \<Rightarrow> world \<Rightarrow> bytes outcome \<times> world" where
  "handle_resize_escape rt data fd w = scan rt data fd 0 [] w"

subsection \<open>\<^verbatim>\<open>main\<close>: arguments and the child's \<^verbatim>\<open>exec\<close>\<close>

text \<open>
  \<^verbatim>\<open>sys.argv\<close> is checked and converted the same way in both files: fewer than four
  entries end the process (\<^verbatim>\<open>sys.exit(1)\<close>), a column or row count that \<^verbatim>\<open>int\<close>
  rejects raises \<^verbatim>\<open>ValueError\<close>, and \<open>cmd\<close> is \<^verbatim>\<open>sys.argv[3:]\<close>.
\<close>

definition main_args :: "pyrt \<Rightarrow> ustr list \<Rightarrow> exn + (int \<times> int \<times> ustr list)" where
  "main_args rt argv =
     (if length argv < 4 then Inl SystemExit
      else (case py_int rt (argv ! 1) of
              Inl e \<Rightarrow> Inl e
            | Inr c \<Rightarrow>
                (case py_int rt (argv ! 2) of
                   Inl e \<Rightarrow> Inl e
                 | Inr r \<Rightarrow> Inr (c, r, drop 3 argv))))"

text \<open>
  In the forked child (\<^verbatim>\<open>pid == 0\<close>) the size is set on standard output, any failure of
  that being ignored, and the command is executed: \<^verbatim>\<open>os.execvp(cmd[0], cmd)\<close>.
\<close>

datatype exec_call = Execvp ustr "ustr list"

definition main_child :: "pyrt \<Rightarrow> ustr list \<Rightarrow> exn + exec_call" where
  "main_child rt argv =
     (case main_args rt argv of
        Inl e \<Rightarrow> Inl e
      | Inr (c, r, command) \<Rightarrow> Inr (Execvp (command ! 0) command))"

section \<open>\<^verbatim>\<open>terminal_win.py\<close>: the Windows wrapper\<close>

subsection \<open>The \<^verbatim>\<open>PtyProcess\<close> of pywinpty as the wrapper uses it\<close>

text \<open>
  \<open>dimensions\<close> is the pair (rows, columns) the pseudo-terminal has; \<open>accepts\<close> says which
  pairs the library's \<^verbatim>\<open>setwinsize\<close> takes without raising; \<open>written\<close> collects the
  argument of every \<^verbatim>\<open>write\<close>, in order.
\<close>

record pty_process =
  alive :: bool
  dimensions :: "int \<times> int"
  accepts :: "int \<Rightarrow> int \<Rightarrow> bool"
  written :: "ustr list"

definition setwinsize :: "int \<Rightarrow> int \<Rightarrow> pty_process \<Rightarrow> exn + pty_process" where
  "setwinsize r c p =
     (if alive p \<and> accepts p r c then Inr (p\<lparr>dimensions := (r, c)\<rparr>) else Inl WinptyError)"

definition pty_write :: "ustr \<Rightarrow> pty_process \<Rightarrow> exn + pty_process" where
  "pty_write d p = (if alive p then Inr (p\<lparr>written := written p @ [d]\<rparr>) else Inl WinptyError)"

subsection \<open>The class \<^verbatim>\<open>WindowsPTY\<close>\<close>

datatype command = CmdList "ustr list" | CmdStr ustr

text \<open>The fields of the object, and the lines it has written to standard error.\<close>

record WindowsPTY =
  cols :: int
  rows :: int
  cmd :: command
  proc :: "pty_process option"
  running :: bool
  stderr :: "exn list"

definition WindowsPTY_init :: "int \<Rightarrow> int \<Rightarrow> command \<Rightarrow> WindowsPTY" where
  "WindowsPTY_init c r command =
     \<lparr>cols = c, rows = r, cmd = command, proc = None, running = True, stderr = []\<rparr>"

definition RESIZE_STR :: ustr where
  "RESIZE_STR = ustr RESIZE_PREFIX"

subsection \<open>\<^verbatim>\<open>handle_resize\<close>\<close>

definition report :: "exn \<Rightarrow> WindowsPTY \<Rightarrow> WindowsPTY" where
  "report e s = s\<lparr>stderr := stderr s @ [e]\<rparr>"

text \<open>
  \<^verbatim>\<open>params = data[8:-1]\<close>, split into exactly two fields; then
  \<^verbatim>\<open>self.proc.setwinsize(int(rows), int(cols))\<close>, the row count converted first. Every
  exception is caught and reported.
\<close>

definition handle_resize :: "pyrt \<Rightarrow> ustr \<Rightarrow> WindowsPTY \<Rightarrow> WindowsPTY" where
  "handle_resize rt data s =
     (case split_on 59 (drop 8 (butlast data)) of
        [cols_s, rows_s] \<Rightarrow>
          (case proc s of
             None \<Rightarrow> report AttributeError s
           | Some p \<Rightarrow>
               (case py_int rt rows_s of
                  Inl e \<Rightarrow> report e s
                | Inr r \<Rightarrow>
                    (case py_int rt cols_s of
                       Inl e \<Rightarrow> report e s
                     | Inr c \<Rightarrow>
                         (case setwinsize r c p of
                            Inl e \<Rightarrow> report e s
                          | Inr p' \<Rightarrow> s\<lparr>proc := Some p'\<rparr>))))
      | _ \<Rightarrow> report ValueError s)"

subsection \<open>\<^verbatim>\<open>handle_input\<close>\<close>

text \<open>
  Standard input is the list of what the successive \<^verbatim>\<open>sys.stdin.read(1)\<close> give: a
  character, or an exception; at the end of the list every read returns the empty string.
\<close>

datatype read = Got nat | Fails exn

text \<open>
  The inner \<^verbatim>\<open>while True\<close>, entered with the escape character in \<open>buffer\<close>. It returns the
  buffer it leaves behind, the input not yet read, and the object.
\<close>

fun buffering :: "pyrt \<Rightarrow> ustr \<Rightarrow> read list \<Rightarrow> WindowsPTY \<Rightarrow> ustr \<times> read list \<times> WindowsPTY" where
  "buffering rt buffer [] s = (buffer, [], s)"
| "buffering rt buffer (Fails e # rest) s = (buffer, rest, s)"
| "buffering rt buffer (Got c # rest) s =
     (if prefix RESIZE_STR (buffer @ [c]) then
        (if c = 7 then ([], rest, handle_resize rt (buffer @ [c]) s)
         else buffering rt (buffer @ [c]) rest s)
      else if length (buffer @ [c]) > 50 then (buffer @ [c], rest, s)
      else if \<not> prefix (take (length RESIZE_STR) (buffer @ [c])) RESIZE_STR then
        (buffer @ [c], rest, s)
      else buffering rt (buffer @ [c]) rest s)"

text \<open>\<^verbatim>\<open>self.proc.write(data)\<close>, with the exception it can raise.\<close>

definition proc_write :: "ustr \<Rightarrow> WindowsPTY \<Rightarrow> exn + WindowsPTY" where
  "proc_write d s =
     (case proc s of
        None \<Rightarrow> Inl AttributeError
      | Some p \<Rightarrow> (case pty_write d p of Inl e \<Rightarrow> Inl e | Inr p' \<Rightarrow> Inr (s\<lparr>proc := Some p'\<rparr>)))"

text \<open>
  The outer loop. An \<^verbatim>\<open>EOFError\<close> inside the loop body ends the loop; any other
  exception is swallowed (a short sleep) and the loop goes on. Leaving the loop in any way
  sets \<open>running\<close> to \<open>False\<close>. The reader thread
  is not part of the model: \<open>running\<close> and the liveness of the child change only through
  what this function does.
\<close>

function handle_input :: "pyrt \<Rightarrow> read list \<Rightarrow> WindowsPTY \<Rightarrow> WindowsPTY" where
  "handle_input rt inp s =
     (if \<not> running s then s\<lparr>running := False\<rparr>
      else (case proc s of
              None \<Rightarrow> s\<lparr>running := False\<rparr>
            | Some p \<Rightarrow>
                (if \<not> alive p then s\<lparr>running := False\<rparr>
                 else (case inp of
                         [] \<Rightarrow> s\<lparr>running := False\<rparr>
                       | Fails e # rest \<Rightarrow>
                           (if e = EOFError then s\<lparr>running := False\<rparr>
                            else handle_input rt rest s)
                       | Got c # rest \<Rightarrow>
                           (if c = 27 then
                              (case buffering rt [c] rest s of
                                 (buffer, rest', s') \<Rightarrow>
                                   (if buffer \<noteq> [] then
                                      (case proc_write buffer s' of
                                         Inl e \<Rightarrow>
                                           (if e = EOFError then s'\<lparr>running := False\<rparr>
                                            else handle_input rt rest' s')
                                       | Inr s'' \<Rightarrow> handle_input rt rest' s'')
                                    else handle_input rt rest' s'))
                            else (case proc_write [c] s of
                                    Inl e \<Rightarrow>
                                      (if e = EOFError then s\<lparr>running := False\<rparr>
                                       else handle_input rt rest s)
                                  | Inr s'' \<Rightarrow> handle_input rt rest s''))))))"
  by pat_completeness auto

termination handle_input
proof -
  have unread: "buffering rt buffer inp s = (b, rest, s') \<Longrightarrow> length rest \<le> length inp"
    for rt buffer inp s b rest s'
    by (induction rt buffer inp s rule: buffering.induct) (auto split: if_splits)
  show ?thesis
    by (relation "measure (\<lambda>(rt, inp, s). length inp)")
       (auto dest!: unread [OF sym])
qed

subsection \<open>\<^verbatim>\<open>start\<close>\<close>

text \<open>
  A command given as a list is joined with blanks; the child is spawned from that one
  string with \<^verbatim>\<open>dimensions=(self.rows, self.cols)\<close>. \<open>spawn\<close> stands for
  \<^verbatim>\<open>PtyProcess.spawn\<close>.
\<close>

definition cmd_str :: "WindowsPTY \<Rightarrow> ustr" where
  "cmd_str s = (case cmd s of CmdList l \<Rightarrow> join_with [32] l | CmdStr c \<Rightarrow> c)"

definition spawn_args :: "WindowsPTY \<Rightarrow> ustr \<times> (int \<times> int)" where
  "spawn_args s = (cmd_str s, (rows s, cols s))"

definition start ::
  "pyrt \<Rightarrow> (ustr \<times> (int \<times> int) \<Rightarrow> exn + pty_process) \<Rightarrow> read list \<Rightarrow> WindowsPTY
     \<Rightarrow> exn + WindowsPTY" where
  "start rt spawn inp s =
     (case spawn (spawn_args s) of
        Inl e \<Rightarrow> Inl e
      | Inr p \<Rightarrow> Inr (handle_input rt inp (s\<lparr>proc := Some p\<rparr>)))"

definition win_main ::
  "pyrt \<Rightarrow> (ustr \<times> (int \<times> int) \<Rightarrow> exn + pty_process) \<Rightarrow> read list \<Rightarrow> ustr list
     \<Rightarrow> exn + WindowsPTY" where
  "win_main rt spawn inp argv =
     (case main_args rt argv of
        Inl e \<Rightarrow> Inl e
      | Inr (c, r, command) \<Rightarrow> start rt spawn inp (WindowsPTY_init c r (CmdList command)))"

section \<open>Values for the concrete examples\<close>

text \<open>
  The examples are ASCII throughout, so the Unicode tables of the runtime play no part in
  them. The example world has one terminal, descriptor 5, of 24 rows and 80 columns, and
  one child, process 4242. The example Windows object is constructed for 80 columns and
  24 rows and has a live child whose library accepts every positive size.
\<close>

definition example_rt :: pyrt where
  "example_rt =
     \<lparr>uni_space = (\<lambda>c. False), uni_decimal = (\<lambda>c. None), int_max_str_digits = 4300\<rparr>"

definition example_tty :: winsize where
  "example_tty = \<lparr>ws_row = 24, ws_col = 80, ws_xpixel = 0, ws_ypixel = 0\<rparr>"

definition example_world :: world where
  "example_world =
     \<lparr>child_pid = Some 4242,
      ttys = (\<lambda>fd. if fd = 5 then Some example_tty else None),
      procs = (\<lambda>p. p = 4242),
      events = []\<rparr>"

definition example_process :: pty_process where
  "example_process =
     \<lparr>alive = True, dimensions = (24, 80), accepts = (\<lambda>r c. 0 < r \<and> 0 < c), written = []\<rparr>"

definition example_pty :: WindowsPTY where
  "example_pty =
     (WindowsPTY_init 80 24 (CmdList [ustr ''cmd.exe'']))\<lparr>proc := Some example_process\<rparr>"

section \<open>The scan of the Unix wrapper forwards every byte\<close>

declare scan.simps [simp del]
declare handle_input.simps [simp del]

text \<open>
  The literal has nine bytes: the escape character, the bracket, the six letters and the
  semicolon. A slice \<^verbatim>\<open>data[i:i+8]\<close> has at most eight, so the test of the scan is
  never true, whatever the data.
\<close>

lemma length_RESIZE_PREFIX: "length RESIZE_PREFIX = 9"
  by (simp add: RESIZE_PREFIX_def)

lemma slice_never_prefix: "slice data i (i + 8) \<noteq> RESIZE_PREFIX"
proof
  assume "slice data i (i + 8) = RESIZE_PREFIX"
  then have "length (slice data i (i + 8)) = 9"
    by (simp add: length_RESIZE_PREFIX)
  then show False
    by (simp add: slice_def)
qed

lemma slice_one: "i < length data \<Longrightarrow> slice data i (i + 1) @ drop (i + 1) data = drop i data"
  by (simp add: slice_def take_Suc_conv_app_nth Cons_nth_drop_Suc)

lemma scan_forwards_all: "scan rt data fd i result w = (Returned (result @ drop i data), w)"
proof (induction rt data fd i result w rule: scan.induct)
  case (1 rt data fd i result w)
  show ?case
  proof (cases "i < length data")
    case True
    have "scan rt data fd i result w = scan rt data fd (i + 1) (result @ slice data i (i + 1)) w"
      using True by (subst scan.simps) (simp add: slice_never_prefix)
    also have "\<dots> = (Returned ((result @ slice data i (i + 1)) @ drop (i + 1) data), w)"
      using True slice_never_prefix by (intro "1.IH"(3)) auto
    finally show ?thesis
      using True slice_one [of i data] by simp
  next
    case False
    then show ?thesis by (subst scan.simps) simp
  qed
qed

lemma handle_resize_escape_identity:
  "handle_resize_escape rt data fd w = (Returned data, w)"
  by (simp add: handle_resize_escape_def scan_forwards_all)

text \<open>
  \<^bold>\<open>Claim C1.\<close> A chunk of plain bytes around one well-formed directive should come back
  as the plain bytes alone, with one resize to the directive's columns and rows applied.
  The code does neither: the chunk comes back whole, directive included, and the world is
  as it was (no window size set, no signal, nothing reported). The payload the claim
  promises, \<open>pre @ post\<close>, is not what is returned.
\<close>

theorem directive_forwarded_not_applied:
  "handle_resize_escape rt (pre @ RESIZE_PREFIX @ c @ '';'' @ r @ [BEL] @ post) fd w
     = (Returned (pre @ RESIZE_PREFIX @ c @ '';'' @ r @ [BEL] @ post), w)
   \<and> fst (handle_resize_escape rt (pre @ RESIZE_PREFIX @ c @ '';'' @ r @ [BEL] @ post) fd w)
       \<noteq> Returned (pre @ post)"
  by (simp add: handle_resize_escape_identity)

text \<open>
  \<^bold>\<open>Claim C5.\<close> A directive with invalid dimensions should be discarded and reported,
  the session going on. On the Unix wrapper the directive is neither discarded nor
  reported: a chunk holding \<^verbatim>\<open>RESIZE;0;0\<close> or \<^verbatim>\<open>RESIZE;-5;24\<close> is returned
  unchanged, to be written to the child, and no event is logged.
\<close>

theorem invalid_dimensions_forwarded:
  "handle_resize_escape rt (RESIZE_PREFIX @ ''0;0'' @ [BEL]) fd w
     = (Returned (RESIZE_PREFIX @ ''0;0'' @ [BEL]), w)
   \<and> handle_resize_escape rt (RESIZE_PREFIX @ ''-5;24'' @ [BEL]) fd w
     = (Returned (RESIZE_PREFIX @ ''-5;24'' @ [BEL]), w)"
  by (simp add: handle_resize_escape_identity)

text \<open>
  What \<^verbatim>\<open>set_size\<close> does with such dimensions, were it reached: zero is applied like
  any other size, and a value outside an unsigned short raises \<^verbatim>\<open>struct.error\<close>,
  which the handler \<^verbatim>\<open>except (ValueError, OSError)\<close> does not catch.
\<close>

lemma set_size_zero:
  "0 \<le> fd \<Longrightarrow> ttys w fd = Some old \<Longrightarrow> fst (set_size fd 0 0 w) = Returned ()"
  by (simp add: set_size_def pack_HHHH_def pack_H_def ioctl_TIOCSWINSZ_def)

lemma set_size_out_of_range:
  "\<not> (0 \<le> c \<and> c \<le> 65535 \<and> 0 \<le> r \<and> r \<le> 65535) \<Longrightarrow>
     set_size fd c r w = (Raised StructError, w)"
  by (auto simp: set_size_def pack_HHHH_def pack_H_def)

lemma struct_error_escapes:
  "apply_resize rt raw fd w = (Raised StructError, w') \<Longrightarrow>
     try_resize rt raw fd w = (Raised StructError, w')"
  by (simp add: try_resize_def is_ValueError_def is_OSError_def)

text \<open>
  \<^bold>\<open>Claim C7.\<close> Two directives in one chunk should be applied from left to right, the
  size of the last one being final. The code applies neither: the chunk is returned
  whole and the terminal keeps the size it had.
\<close>

theorem two_directives_not_applied:
  "handle_resize_escape rt
     (xs @ RESIZE_PREFIX @ ''80;24'' @ [BEL] @ ys @ RESIZE_PREFIX @ ''100;30'' @ [BEL] @ zs) fd w
     = (Returned
         (xs @ RESIZE_PREFIX @ ''80;24'' @ [BEL] @ ys @ RESIZE_PREFIX @ ''100;30'' @ [BEL] @ zs), w)
   \<and> ttys (snd (handle_resize_escape rt
        (xs @ RESIZE_PREFIX @ ''80;24'' @ [BEL] @ ys @ RESIZE_PREFIX @ ''100;30'' @ [BEL] @ zs)
        fd w)) = ttys w"
  by (simp add: handle_resize_escape_identity)

text \<open>
  \<^bold>\<open>Claim C8.\<close> A directive with a malformed body should be consumed, reported and not
  forwarded, in both wrappers. On the Unix wrapper the span with the body \<^verbatim>\<open>abc;10\<close> is
  forwarded with the rest of the chunk and nothing is reported.
\<close>

theorem malformed_directive_forwarded:
  "handle_resize_escape rt (xs @ RESIZE_PREFIX @ ''abc;10'' @ [BEL] @ ys) fd w
     = (Returned (xs @ RESIZE_PREFIX @ ''abc;10'' @ [BEL] @ ys), w)
   \<and> events (snd (handle_resize_escape rt (xs @ RESIZE_PREFIX @ ''abc;10'' @ [BEL] @ ys) fd w))
       = events w"
  by (simp add: handle_resize_escape_identity)

text \<open>
  \<^bold>\<open>Claim C3.\<close> As stated (a prefix with no terminator after it is never forwarded as
  plain data) the claim fails: the chunk \<^verbatim>\<open>ESC ] RESIZE ; 80 ; 24\<close> without its BEL is
  returned as it is.
\<close>

theorem truncated_prefix_counterexample:
  "sublist RESIZE_PREFIX (RESIZE_PREFIX @ ''80;24'')
   \<and> BEL \<notin> set (RESIZE_PREFIX @ ''80;24'')
   \<and> fst (handle_resize_escape example_rt (RESIZE_PREFIX @ ''80;24'') 5 example_world)
       = Returned (RESIZE_PREFIX @ ''80;24'')"
  by (simp add: handle_resize_escape_identity RESIZE_PREFIX_def BEL_def ESC_def)

text \<open>
  \<^bold>\<open>Claim C3, amended.\<close> When no BEL follows an occurrence of the prefix, the bytes from
  that occurrence to the end of the chunk are forwarded as they are: the returned payload
  ends with them.
\<close>

theorem unterminated_directive_forwarded:
  assumes "BEL \<notin> set ys"
  shows "\<exists>p w'. handle_resize_escape rt (xs @ RESIZE_PREFIX @ ys) fd w
                   = (Returned (p @ RESIZE_PREFIX @ ys), w')"
  by (intro exI [of _ xs] exI [of _ w]) (simp add: handle_resize_escape_identity)

theorem unterminated_directive_forwarded_witness:
  "BEL \<notin> set ''80;24''
   \<and> (\<exists>p w'. handle_resize_escape example_rt (''ab'' @ RESIZE_PREFIX @ ''80;24'') 5 example_world
                 = (Returned (p @ RESIZE_PREFIX @ ''80;24''), w'))"
proof -
  have h: "BEL \<notin> set ''80;24''"
    by (simp add: BEL_def)
  show ?thesis
    using h unterminated_directive_forwarded [OF h, of example_rt "''ab''" 5 example_world]
    by simp
qed

section \<open>The resize block of the Unix wrapper\<close>

text \<open>
  What the \<^verbatim>\<open>try\<close> block that handles one directive does when it runs: if the
  parameters parse to \<open>(c, r)\<close> and \<^verbatim>\<open>set_size\<close> returns, leaving the world \<open>w'\<close>, and
  the child's process id is set and can be signalled, the block returns with exactly one
  more event after the size was set, \<^verbatim>\<open>SIGWINCH\<close> sent by \<^verbatim>\<open>os.kill\<close> to the process
  \<open>child_pid\<close>.
\<close>

lemma try_block_signals_child:
  assumes "parse_params rt raw = Inr (c, r)"
    and "set_size fd c r w = (Returned (), w')"
    and "child_pid w = Some pid" and "pid \<noteq> 0" and "procs w pid"
  shows "try_resize rt raw fd w
           = (Returned (), w'\<lparr>events := events w' @ [Signal_sent pid SIGWINCH]\<rparr>)
         \<and> events w' = events w @ [Winsize_set fd
               \<lparr>ws_row = word_of_int r, ws_col = word_of_int c, ws_xpixel = 0, ws_ypixel = 0\<rparr>]
         \<and> ttys w' fd = Some
               \<lparr>ws_row = word_of_int r, ws_col = word_of_int c, ws_xpixel = 0, ws_ypixel = 0\<rparr>"
proof -
  from assms(2) have w': "w' = w\<lparr>ttys := (ttys w)(fd := Some
        \<lparr>ws_row = word_of_int r, ws_col = word_of_int c, ws_xpixel = 0, ws_ypixel = 0\<rparr>),
      events := events w @ [Winsize_set fd
        \<lparr>ws_row = word_of_int r, ws_col = word_of_int c, ws_xpixel = 0, ws_ypixel = 0\<rparr>]\<rparr>"
    by (auto simp: set_size_def pack_HHHH_def pack_H_def ioctl_TIOCSWINSZ_def
             split: if_splits option.splits)
  have "apply_resize rt raw fd w
          = (Returned (), w'\<lparr>events := events w' @ [Signal_sent pid SIGWINCH]\<rparr>)"
    using assms w' by (simp add: apply_resize_def os_kill_def)
  then show ?thesis
    using w' by (simp add: try_resize_def)
qed

lemma try_block_signals_child_example:
  "try_resize example_rt ''132;43'' 5 example_world
     = (Returned (),
        example_world
          \<lparr>ttys := (ttys example_world)
             (5 := Some \<lparr>ws_row = 43, ws_col = 132, ws_xpixel = 0, ws_ypixel = 0\<rparr>),
           events := [Winsize_set 5 \<lparr>ws_row = 43, ws_col = 132, ws_xpixel = 0, ws_ypixel = 0\<rparr>,
                      Signal_sent 4242 SIGWINCH]\<rparr>)"
proof -
  have a: "parse_params example_rt ''132;43'' = Inr (132, 43)"
    by code_simp
  have b: "set_size 5 132 43 example_world
             = (Returned (),
                example_world
                  \<lparr>ttys := (ttys example_world)
                     (5 := Some \<lparr>ws_row = 43, ws_col = 132, ws_xpixel = 0, ws_ypixel = 0\<rparr>),
                   events :=
                     [Winsize_set 5 \<lparr>ws_row = 43, ws_col = 132, ws_xpixel = 0, ws_ypixel = 0\<rparr>]\<rparr>)"
    by (simp add: set_size_def pack_HHHH_def pack_H_def ioctl_TIOCSWINSZ_def example_world_def)
  have c: "child_pid example_world = Some 4242"
    by (simp add: example_world_def)
  have d: "(4242 :: int) \<noteq> 0"
    by simp
  have e: "procs example_world 4242"
    by (simp add: example_world_def)
  show ?thesis
    using try_block_signals_child [OF a b c d e] by simp
qed

text \<open>
  \<^bold>\<open>Claim C9.\<close> On the Unix wrapper a resize should be followed by the window-change
  signal to the child. Through \<^verbatim>\<open>handle_resize_escape\<close> it never is: whatever directive
  a chunk holds, the chunk is returned whole and the log of events is as it was, so no
  size is set and no signal sent. For the directive \<^verbatim>\<open>RESIZE;132;43\<close> in the example
  world (terminal open, child 4242 alive) the function logs nothing, while the \<^verbatim>\<open>try\<close>
  block run on the same parameters sets the size and signals the child: the block that
  would do what the claim says is never reached.
\<close>

theorem resize_directive_not_signalled:
  "handle_resize_escape rt (xs @ RESIZE_PREFIX @ c @ '';'' @ r @ [BEL] @ ys) fd w
     = (Returned (xs @ RESIZE_PREFIX @ c @ '';'' @ r @ [BEL] @ ys), w)
   \<and> events (snd (handle_resize_escape rt (xs @ RESIZE_PREFIX @ c @ '';'' @ r @ [BEL] @ ys) fd w))
       = events w
   \<and> events (snd (handle_resize_escape example_rt (RESIZE_PREFIX @ ''132;43'' @ [BEL]) 5
                    example_world)) = []
   \<and> events (snd (try_resize example_rt ''132;43'' 5 example_world))
       = [Winsize_set 5 \<lparr>ws_row = 43, ws_col = 132, ws_xpixel = 0, ws_ypixel = 0\<rparr>,
          Signal_sent 4242 SIGWINCH]"
proof -
  have "events (snd (try_resize example_rt ''132;43'' 5 example_world))
          = [Winsize_set 5 \<lparr>ws_row = 43, ws_col = 132, ws_xpixel = 0, ws_ypixel = 0\<rparr>,
             Signal_sent 4242 SIGWINCH]"
    by code_simp
  then show ?thesis
    by (simp add: handle_resize_escape_identity example_world_def)
qed

section \<open>Arguments of the child\<close>

text \<open>
  \<^bold>\<open>Claim C10.\<close> The Windows wrapper spawns its child from one string, the argument
  list joined with blanks: \<^verbatim>\<open>start\<close> calls \<^verbatim>\<open>PtyProcess.spawn\<close> with that join and
  with (rows, columns), and \<^verbatim>\<open>main\<close> hands it \<^verbatim>\<open>sys.argv[3:]\<close>. Two lists with the
  same join therefore give the same spawn. The Unix wrapper executes \<^verbatim>\<open>sys.argv[3:]\<close>
  as it is.
\<close>

theorem argument_boundaries:
  assumes "join_with [32] a = join_with [32] b" and "main_child rt argv = Inr call"
  shows "spawn_args (WindowsPTY_init c r (CmdList a)) = (join_with [32] a, (r, c))
         \<and> spawn_args (WindowsPTY_init c r (CmdList a))
             = spawn_args (WindowsPTY_init c r (CmdList b))
         \<and> start rt spawn inp (WindowsPTY_init c r (CmdList a))
             = (case spawn (join_with [32] a, (r, c)) of
                  Inl e \<Rightarrow> Inl e
                | Inr p \<Rightarrow> Inr (handle_input rt inp
                                  ((WindowsPTY_init c r (CmdList a))\<lparr>proc := Some p\<rparr>)))
         \<and> (\<exists>c' r'. win_main rt spawn inp argv
                       = start rt spawn inp (WindowsPTY_init c' r' (CmdList (drop 3 argv))))
         \<and> call = Execvp (argv ! 3) (drop 3 argv)"
proof -
  have args: "spawn_args (WindowsPTY_init c r (CmdList x)) = (join_with [32] x, (r, c))" for x
    by (simp add: spawn_args_def cmd_str_def WindowsPTY_init_def)
  obtain c' r' where m: "main_args rt argv = Inr (c', r', drop 3 argv)"
    and long: "4 \<le> length argv"
    using assms(2)
    by (auto simp: main_child_def main_args_def split: if_splits sum.splits)
  have "call = Execvp (argv ! 3) (drop 3 argv)"
    using assms(2) m long by (auto simp: main_child_def)
  moreover have "win_main rt spawn inp argv
                   = start rt spawn inp (WindowsPTY_init c' r' (CmdList (drop 3 argv)))"
    using m by (simp add: win_main_def)
  moreover have "start rt spawn inp (WindowsPTY_init c r (CmdList a))
             = (case spawn (join_with [32] a, (r, c)) of
                  Inl e \<Rightarrow> Inl e
                | Inr p \<Rightarrow> Inr (handle_input rt inp
                                  ((WindowsPTY_init c r (CmdList a))\<lparr>proc := Some p\<rparr>)))"
    by (simp add: start_def args)
  ultimately show ?thesis
    using assms(1) args by auto
qed

theorem argument_boundaries_witness:
  "[ustr ''a b''] \<noteq> [ustr ''a'', ustr ''b'']
   \<and> spawn_args (WindowsPTY_init 80 24 (CmdList [ustr ''a b''])) = (ustr ''a b'', (24, 80))
   \<and> spawn_args (WindowsPTY_init 80 24 (CmdList [ustr ''a'', ustr ''b''])) = (ustr ''a b'', (24, 80))
   \<and> main_child example_rt
        [ustr ''terminal_pty.py'', ustr ''80'', ustr ''24'', ustr ''echo'', ustr ''a b'']
       = Inr (Execvp (ustr ''echo'') [ustr ''echo'', ustr ''a b''])"
proof -
  have j: "join_with [32] [ustr ''a b''] = join_with [32] [ustr ''a'', ustr ''b'']"
    by (simp add: ustr_def)
  have m: "main_child example_rt
             [ustr ''terminal_pty.py'', ustr ''80'', ustr ''24'', ustr ''echo'', ustr ''a b'']
           = Inr (Execvp (ustr ''echo'') [ustr ''echo'', ustr ''a b''])"
    by code_simp
  have n: "[ustr ''a b''] \<noteq> [ustr ''a'', ustr ''b'']"
    by simp
  have k: "join_with [32] [ustr ''a b''] = ustr ''a b''"
    by simp
  note both = argument_boundaries [OF j m, where c = 80 and r = 24 and spawn = "\<lambda>x. Inl OSError"
      and inp = "[]"]
  have e1: "spawn_args (WindowsPTY_init 80 24 (CmdList [ustr ''a b''])) = (ustr ''a b'', (24, 80))"
    using both [THEN conjunct1] k by simp
  have e2: "spawn_args (WindowsPTY_init 80 24 (CmdList [ustr ''a b'']))
              = spawn_args (WindowsPTY_init 80 24 (CmdList [ustr ''a'', ustr ''b'']))"
    by (rule both [THEN conjunct2, THEN conjunct1])
  have "spawn_args (WindowsPTY_init 80 24 (CmdList [ustr ''a'', ustr ''b'']))
          = (ustr ''a b'', (24, 80))"
    by (rule trans [OF e2 [symmetric] e1])
  then show ?thesis
    using e1 m n by simp
qed

section \<open>The Windows wrapper\<close>

lemma RESIZE_STR_codes: "RESIZE_STR = [27, 93, 82, 69, 83, 73, 90, 69, 59]"
  by (simp add: RESIZE_STR_def RESIZE_PREFIX_def ustr_def ESC_def)

subsection \<open>The pending buffer\<close>

text \<open>
  Once the buffer starts with the whole literal, only a BEL ends the inner loop: the
  length test sits in an \<^verbatim>\<open>elif\<close> of the \<^verbatim>\<open>startswith\<close> test and is not looked at.
\<close>

lemma buffering_grows:
  assumes "prefix RESIZE_STR b" and "7 \<notin> set cs"
  shows "buffering rt b (map Got cs) s = (b @ cs, [], s)"
  using assms
proof (induction cs arbitrary: b)
  case Nil
  then show ?case by simp
next
  case (Cons c cs)
  have "prefix RESIZE_STR (b @ [c])"
    using Cons.prems(1) by (simp add: prefix_prefix)
  moreover have "c \<noteq> 7" and "7 \<notin> set cs"
    using Cons.prems(2) by auto
  ultimately show ?case
    using Cons.IH [of "b @ [c]"] by simp
qed

lemma buffering_reaches_prefix:
  "buffering rt [27] (map Got (tl RESIZE_STR) @ inp) s = buffering rt RESIZE_STR inp s"
proof (cases inp)
  case Nil
  then show ?thesis by (simp add: RESIZE_STR_codes)
next
  case (Cons r rest)
  then show ?thesis by (cases r) (simp_all add: RESIZE_STR_codes)
qed

text \<open>
  \<^bold>\<open>Claim C4.\<close> The pending buffer should never pass 50 characters. After the escape
  character, the rest of the literal and \<open>n\<close> letters \<^verbatim>\<open>a\<close> (no BEL), the inner loop is
  still buffering at the end of the input and holds all \<open>9 + n\<close> characters, for every
  \<open>n\<close>: 109 of them for \<open>n = 100\<close>.
\<close>

theorem pending_buffer_unbounded:
  "buffering rt [27] (map Got (tl RESIZE_STR @ replicate n 97)) s
     = (RESIZE_STR @ replicate n 97, [], s)
   \<and> length (RESIZE_STR @ replicate n 97) = 9 + n"
proof -
  have "buffering rt RESIZE_STR (map Got (replicate n 97)) s
          = (RESIZE_STR @ replicate n 97, [], s)"
    by (rule buffering_grows) simp_all
  then show ?thesis
    using buffering_reaches_prefix [of rt "map Got (replicate n 97)" s]
    by (simp add: RESIZE_STR_codes)
qed

subsection \<open>Input without the literal passes through\<close>

lemma buffering_plain:
  assumes "\<not> prefix RESIZE_STR (b @ cs)"
  shows "\<exists>k. buffering rt b (map Got cs) s = (b @ take k cs, map Got (drop k cs), s)"
  using assms
proof (induction cs arbitrary: b)
  case Nil
  then show ?case by simp
next
  case (Cons c cs)
  have np: "\<not> prefix RESIZE_STR (b @ [c])"
    using Cons.prems by (metis append.assoc append_Cons append_Nil prefix_prefix)
  show ?case
  proof (cases "buffering rt b (map Got (c # cs)) s = (b @ [c], map Got cs, s)")
    case True
    then have "buffering rt b (map Got (c # cs)) s
                 = (b @ take 1 (c # cs), map Got (drop 1 (c # cs)), s)"
      by simp
    then show ?thesis by blast
  next
    case False
    then have step: "buffering rt b (map Got (c # cs)) s = buffering rt (b @ [c]) (map Got cs) s"
      using np by (simp split: if_splits)
    have "\<not> prefix RESIZE_STR ((b @ [c]) @ cs)"
      using Cons.prems by simp
    from Cons.IH [OF this] obtain k where
      "buffering rt (b @ [c]) (map Got cs) s = ((b @ [c]) @ take k cs, map Got (drop k cs), s)"
      by blast
    then have "buffering rt b (map Got (c # cs)) s
                 = (b @ take (Suc k) (c # cs), map Got (drop (Suc k) (c # cs)), s)"
      using step by simp
    then show ?thesis by blast
  qed
qed

lemma proc_write_alive:
  "proc s = Some p \<Longrightarrow> alive p \<Longrightarrow>
     proc_write d s = Inr (s\<lparr>proc := Some (p\<lparr>written := written p @ [d]\<rparr>)\<rparr>)"
  by (simp add: proc_write_def pty_write_def)

lemma handle_input_plain:
  assumes "running s" and "proc s = Some p" and "alive p" and "\<not> sublist RESIZE_STR cs"
  shows "\<exists>ws. handle_input rt (map Got cs) s
              = s\<lparr>proc := Some (p\<lparr>written := written p @ ws\<rparr>), running := False\<rparr>
            \<and> concat ws = cs"
  using assms
proof (induction "length cs" arbitrary: cs s p rule: less_induct)
  case less
  show ?case
  proof (cases cs)
    case Nil
    have "handle_input rt (map Got cs) s = s\<lparr>running := False\<rparr>"
      using less.prems Nil by (subst handle_input.simps) simp
    also have "\<dots> = s\<lparr>proc := Some (p\<lparr>written := written p @ []\<rparr>), running := False\<rparr>"
      using less.prems by simp
    finally show ?thesis using Nil by (intro exI [of _ "[]"]) simp
  next
    case (Cons c cs')
    have nsub: "\<not> sublist RESIZE_STR cs'"
      using less.prems(4) Cons by (simp add: sublist_Cons_right)
    show ?thesis
    proof (cases "c = 27")
      case False
      let ?s = "s\<lparr>proc := Some (p\<lparr>written := written p @ [[c]]\<rparr>)\<rparr>"
      have step: "handle_input rt (map Got cs) s = handle_input rt (map Got cs') ?s"
        using less.prems Cons False
        by (subst handle_input.simps) (simp add: proc_write_alive)
      have "\<exists>ws. handle_input rt (map Got cs') ?s
              = ?s\<lparr>proc := Some ((p\<lparr>written := written p @ [[c]]\<rparr>)\<lparr>written :=
                     written (p\<lparr>written := written p @ [[c]]\<rparr>) @ ws\<rparr>), running := False\<rparr>
            \<and> concat ws = cs'"
        using less.prems Cons nsub by (intro less.hyps) simp_all
      then obtain ws where
        "handle_input rt (map Got cs') ?s
           = s\<lparr>proc := Some (p\<lparr>written := written p @ ([c] # ws)\<rparr>), running := False\<rparr>"
        and "concat ws = cs'"
        by auto
      then show ?thesis
        using step Cons by (intro exI [of _ "[c] # ws"]) simp
    next
      case True
      have "\<not> prefix RESIZE_STR ([c] @ cs')"
        using less.prems(4) Cons by (auto simp: sublist_Cons_right)
      from buffering_plain [OF this] obtain k where
        buf: "buffering rt [c] (map Got cs') s = ([c] @ take k cs', map Got (drop k cs'), s)"
        by blast
      let ?b = "c # take k cs'"
      let ?s = "s\<lparr>proc := Some (p\<lparr>written := written p @ [?b]\<rparr>)\<rparr>"
      have step: "handle_input rt (map Got cs) s = handle_input rt (map Got (drop k cs')) ?s"
        using less.prems Cons True buf
        by (subst handle_input.simps) (simp add: proc_write_alive)
      have nsub': "\<not> sublist RESIZE_STR (drop k cs')"
        using nsub by (metis sublist_drop sublist_order.order_trans)
      have "\<exists>ws. handle_input rt (map Got (drop k cs')) ?s
              = ?s\<lparr>proc := Some ((p\<lparr>written := written p @ [?b]\<rparr>)\<lparr>written :=
                     written (p\<lparr>written := written p @ [?b]\<rparr>) @ ws\<rparr>), running := False\<rparr>
            \<and> concat ws = drop k cs'"
        using less.prems Cons nsub' by (intro less.hyps) simp_all
      then obtain ws where
        "handle_input rt (map Got (drop k cs')) ?s
           = s\<lparr>proc := Some (p\<lparr>written := written p @ (?b # ws)\<rparr>), running := False\<rparr>"
        and "concat ws = drop k cs'"
        by auto
      then show ?thesis
        using step Cons by (intro exI [of _ "?b # ws"]) simp
    qed
  qed
qed

text \<open>
  \<^bold>\<open>Claim C2.\<close> Input that does not contain the literal comes out as it went in, and no
  resize happens. For the Unix wrapper the returned payload is the chunk and the world is
  unchanged. For the Windows wrapper, with a live child and the characters \<open>cs\<close> on
  standard input, the loop ends at the end of the input with \<open>running\<close> false; the writes
  to the child, concatenated, are \<open>cs\<close>; nothing else of the object has changed, neither
  the child's dimensions nor standard error.
\<close>

theorem passthrough_identity:
  assumes "\<not> sublist RESIZE_PREFIX data"
    and "\<not> sublist RESIZE_STR cs" and "running s" and "proc s = Some p" and "alive p"
  shows "handle_resize_escape rt data fd w = (Returned data, w)
         \<and> (\<exists>ws. handle_input rt (map Got cs) s
                    = s\<lparr>proc := Some (p\<lparr>written := written p @ ws\<rparr>), running := False\<rparr>
                  \<and> concat ws = cs)"
  using assms handle_input_plain [of s p cs rt]
  by (simp add: handle_resize_escape_identity)

theorem passthrough_identity_witness:
  "\<not> sublist RESIZE_PREFIX (ESC # ''[A ls'')
   \<and> \<not> sublist RESIZE_STR (ustr (ESC # ''[A ls''))
   \<and> handle_resize_escape example_rt (ESC # ''[A ls'') 5 example_world
       = (Returned (ESC # ''[A ls''), example_world)
   \<and> (\<exists>ws. handle_input example_rt (map Got (ustr (ESC # ''[A ls''))) example_pty
              = example_pty
                  \<lparr>proc := Some (example_process\<lparr>written := written example_process @ ws\<rparr>),
                   running := False\<rparr>
            \<and> concat ws = ustr (ESC # ''[A ls''))"
proof -
  have a: "\<not> sublist RESIZE_PREFIX (ESC # ''[A ls'')"
    by code_simp
  have b: "\<not> sublist RESIZE_STR (ustr (ESC # ''[A ls''))"
    by code_simp
  have c: "running example_pty"
    by (simp add: example_pty_def WindowsPTY_init_def)
  have d: "proc example_pty = Some example_process"
    by (simp add: example_pty_def)
  have e: "alive example_process"
    by (simp add: example_process_def)
  show ?thesis
    using a b passthrough_identity [OF a b c d e, of example_rt 5 example_world]
    by simp
qed

subsection \<open>\<^verbatim>\<open>handle_resize\<close> and the recorded dimensions\<close>













end
